theory Spec2Isabelle
  imports Complex_Main
begin

section \<open>Python values and the operations the DAG module uses on them\<close>

text \<open>
  The module \<^verbatim>\<open>dags/daily_mbta_delay_etl.py\<close> works on what \<^verbatim>\<open>json.load\<close> returns:
  \<^verbatim>\<open>None\<close>, booleans, integers, floats, strings, lists and dictionaries with string keys.
  A dictionary is an association list in insertion order, read with \<open>map_of\<close>.
  A float is modelled by the rational number it denotes: the rounding of float
  arithmetic and the non-finite floats are outside the model.
\<close>

datatype json =
    JNull
  | JBool bool
  | JInt int
  | JFloat rat
  | JStr string
  | JArr "json list"
  | JObj "(string \<times> json) list"

datatype error =
    AttributeError
  | TypeError
  | OverflowError
  | KeyError
  | FileNotFoundError
  | JSONDecodeError
  | EmptyDataError
  | ParserError
  | ValueError

text \<open>Sequencing of steps that may raise: the first exception ends the computation.\<close>

definition ebind :: "'e + 'a \<Rightarrow> ('a \<Rightarrow> 'e + 'b) \<Rightarrow> 'e + 'b" where
  "ebind m f = (case m of Inl e \<Rightarrow> Inl e | Inr v \<Rightarrow> f v)"

text \<open>\<^verbatim>\<open>d.get(k, default)\<close> on a dictionary.\<close>

definition dict_get :: "(string \<times> json) list \<Rightarrow> string \<Rightarrow> json \<Rightarrow> json" where
  "dict_get kvs k d = (case map_of kvs k of None \<Rightarrow> d | Some v \<Rightarrow> v)"

text \<open>\<^verbatim>\<open>x.get(k, default)\<close> on any value: only a dictionary has the method.\<close>

fun py_get :: "json \<Rightarrow> string \<Rightarrow> json \<Rightarrow> error + json" where
  "py_get (JObj kvs) k d = Inr (dict_get kvs k d)"
| "py_get _ k d = Inl AttributeError"

text \<open>Truth value of a Python object, as \<^verbatim>\<open>or\<close> and \<^verbatim>\<open>not\<close> test it.\<close>

fun truthy :: "json \<Rightarrow> bool" where
  "truthy JNull = False"
| "truthy (JBool b) = b"
| "truthy (JInt i) = (i \<noteq> 0)"
| "truthy (JFloat q) = (q \<noteq> 0)"
| "truthy (JStr s) = (s \<noteq> [])"
| "truthy (JArr xs) = (xs \<noteq> [])"
| "truthy (JObj kvs) = (kvs \<noteq> [])"

text \<open>\<^verbatim>\<open>x or {}\<close>.\<close>

definition or_empty :: "json \<Rightarrow> json" where
  "or_empty x = (if truthy x then x else JObj [])"

text \<open>
  The elements a \<^verbatim>\<open>for\<close> loop visits: the items of a list, the keys of a dictionary,
  the characters of a string; anything else is not iterable.
\<close>

fun py_iter :: "json \<Rightarrow> error + json list" where
  "py_iter (JArr xs) = Inr xs"
| "py_iter (JObj kvs) = Inr (map (\<lambda>kv. JStr (fst kv)) kvs)"
| "py_iter (JStr s) = Inr (map (\<lambda>c. JStr [c]) s)"
| "py_iter _ = Inl TypeError"

text \<open>
  A dictionary keyed by arbitrary values identifies keys that are equal in Python:
  \<^verbatim>\<open>True\<close>, \<^verbatim>\<open>1\<close> and \<^verbatim>\<open>1.0\<close> are one key. Lists and dictionaries are unhashable.
\<close>

datatype key = KNone | KNum rat | KStr string

fun py_key :: "json \<Rightarrow> error + key" where
  "py_key JNull = Inr KNone"
| "py_key (JBool b) = Inr (KNum (if b then 1 else 0))"
| "py_key (JInt i) = Inr (KNum (of_int i))"
| "py_key (JFloat q) = Inr (KNum q)"
| "py_key (JStr s) = Inr (KStr s)"
| "py_key (JArr xs) = Inl TypeError"
| "py_key (JObj kvs) = Inl TypeError"

text \<open>
  \<^verbatim>\<open>delay_seconds / 60.0\<close>. An integer is converted to a float first, which raises
  \<^verbatim>\<open>OverflowError\<close> when it rounds beyond the largest float; a string, list or
  dictionary has no division.
\<close>

definition float_convertible :: "int \<Rightarrow> bool" where
  "float_convertible i = (\<bar>i\<bar> < 2 ^ 1024 - 2 ^ 970)"

fun div_60 :: "json \<Rightarrow> error + json" where
  "div_60 (JInt i) =
     (if float_convertible i then Inr (JFloat (of_int i / 60)) else Inl OverflowError)"
| "div_60 (JBool b) = Inr (JFloat ((if b then 1 else 0) / 60))"
| "div_60 (JFloat q) = Inr (JFloat (q / 60))"
| "div_60 _ = Inl TypeError"

section \<open>Lookup tables built from the included entities\<close>

type_synonym lookup = "key \<Rightarrow> (string \<times> json) list option"

text \<open>\<^verbatim>\<open>table[item_id] = info\<close>: the key is hashed, the entry replaces an older one.\<close>

definition lookup_set :: "lookup \<Rightarrow> json \<Rightarrow> (string \<times> json) list \<Rightarrow> error + lookup" where
  "lookup_set table item_id info =
     ebind (py_key item_id) (\<lambda>k. Inr (table(k \<mapsto> info)))"

text \<open>\<^verbatim>\<open>table.get(some_id, {})\<close>.\<close>

definition lookup_get :: "lookup \<Rightarrow> json \<Rightarrow> error + (string \<times> json) list" where
  "lookup_get table some_id =
     ebind (py_key some_id) (\<lambda>k. Inr (case table k of None \<Rightarrow> [] | Some info \<Rightarrow> info))"

text \<open>\<^verbatim>\<open>attrs.get("long_name") or attrs.get("short_name")\<close>.\<close>

definition route_name_of :: "json \<Rightarrow> error + json" where
  "route_name_of attrs =
     ebind (py_get attrs ''long_name'' JNull) (\<lambda>long_name.
       if truthy long_name then Inr long_name else py_get attrs ''short_name'' JNull)"

text \<open>The body of the loop over \<^verbatim>\<open>included\<close> (lines 119 to 134).\<close>

definition add_included :: "lookup \<times> lookup \<Rightarrow> json \<Rightarrow> error + lookup \<times> lookup" where
  "add_included tables item =
     (case tables of (route_lookup, trip_lookup) \<Rightarrow>
      ebind (py_get item ''type'' JNull) (\<lambda>item_type.
      ebind (py_get item ''id'' JNull) (\<lambda>item_id.
      ebind (py_get item ''attributes'' (JObj [])) (\<lambda>a.
      let attrs = or_empty a in
      if item_type = JStr ''route'' then
        ebind (route_name_of attrs) (\<lambda>name.
        ebind (lookup_set route_lookup item_id
                 [(''route_id'', item_id), (''route_name'', name)]) (\<lambda>route_lookup'.
        Inr (route_lookup', trip_lookup)))
      else if item_type = JStr ''trip'' then
        ebind (py_get attrs ''direction_id'' JNull) (\<lambda>direction_id.
        ebind (py_get attrs ''headsign'' JNull) (\<lambda>headsign.
        ebind (lookup_set trip_lookup item_id
                 [(''trip_id'', item_id), (''direction_id'', direction_id),
                  (''headsign'', headsign)]) (\<lambda>trip_lookup'.
        Inr (route_lookup, trip_lookup'))))
      else Inr (route_lookup, trip_lookup)))))"

fun fold_included :: "json list \<Rightarrow> lookup \<times> lookup \<Rightarrow> error + lookup \<times> lookup" where
  "fold_included [] tables = Inr tables"
| "fold_included (item # items) tables =
     ebind (add_included tables item) (fold_included items)"

definition build_lookups :: "json \<Rightarrow> error + lookup \<times> lookup" where
  "build_lookups included =
     ebind (py_iter included) (\<lambda>items. fold_included items (Map.empty, Map.empty))"

section \<open>Rows\<close>

text \<open>
  A row is the dictionary appended to \<^verbatim>\<open>rows\<close>, with its ten keys in the order of
  the dictionary display. Airflow passes the logical date of the run as
  \<^verbatim>\<open>execution_date\<close>; it is modelled by the string it renders to.
\<close>

type_synonym row = "(string \<times> json) list"

text \<open>\<^verbatim>\<open>(rel.get(name, {}) or {}).get("data") or {}).get("id")\<close> (lines 142 to 146).\<close>

definition rel_id :: "json \<Rightarrow> string \<Rightarrow> error + json" where
  "rel_id rel name =
     ebind (py_get rel name (JObj [])) (\<lambda>r.
     ebind (py_get (or_empty r) ''data'' JNull) (\<lambda>d.
     py_get (or_empty d) ''id'' JNull))"

text \<open>The body of the loop over \<^verbatim>\<open>data\<close> (lines 138 to 170).\<close>

definition make_row :: "lookup \<Rightarrow> lookup \<Rightarrow> string \<Rightarrow> json \<Rightarrow> error + row" where
  "make_row route_lookup trip_lookup execution_date pred =
     ebind (py_get pred ''attributes'' (JObj [])) (\<lambda>a.
     ebind (py_get pred ''relationships'' (JObj [])) (\<lambda>r.
     let attrs = or_empty a; rel = or_empty r in
     ebind (rel_id rel ''route'') (\<lambda>route_id.
     ebind (rel_id rel ''trip'') (\<lambda>trip_id.
     ebind (py_get attrs ''delay'' JNull) (\<lambda>delay_seconds.
     ebind (py_get attrs ''departure_time'' JNull) (\<lambda>departure_time.
     ebind (py_get attrs ''status'' JNull) (\<lambda>status.
     ebind (lookup_get route_lookup route_id) (\<lambda>route_info.
     ebind (lookup_get trip_lookup trip_id) (\<lambda>trip_info.
     ebind (if delay_seconds \<noteq> JNull then div_60 delay_seconds else Inr JNull)
       (\<lambda>delay_minutes.
     Inr [(''route_id'', route_id),
          (''route_name'', dict_get route_info ''route_name'' JNull),
          (''trip_id'', trip_id),
          (''headsign'', dict_get trip_info ''headsign'' JNull),
          (''direction_id'', dict_get trip_info ''direction_id'' JNull),
          (''status'', status),
          (''delay_seconds'', delay_seconds),
          (''delay_minutes'', delay_minutes),
          (''departure_time'', departure_time),
          (''execution_date'', JStr execution_date)]))))))))))"

fun build_rows :: "lookup \<Rightarrow> lookup \<Rightarrow> string \<Rightarrow> json list \<Rightarrow> error + row list" where
  "build_rows routes trips d [] = Inr []"
| "build_rows routes trips d (pred # preds) =
     ebind (make_row routes trips d pred) (\<lambda>r.
     ebind (build_rows routes trips d preds) (\<lambda>rs. Inr (r # rs)))"

section \<open>Data frames and files\<close>

text \<open>
  A data frame is its column index and its rows; a cell that a row does not bind is
  missing, as is a cell holding \<^verbatim>\<open>None\<close>. A CSV file is modelled by the frame of the
  cells written in it. A cell that is a string is kept as it is: a string that
  \<^verbatim>\<open>read_csv\<close> would take for a number or for a missing value is outside the model.
\<close>

record frame =
  columns :: "string list"
  body :: "row list"

definition cell :: "row \<Rightarrow> string \<Rightarrow> json" where
  "cell r c = dict_get r c JNull"

subsection \<open>The dtype of a column\<close>

text \<open>
  pandas keeps a column in one dtype, which it infers when it builds a frame from
  dictionaries, when it reads a CSV file and when it concatenates frames. A column
  whose cells are all 64-bit integers is \<^verbatim>\<open>int64\<close> and its cells stay integers. A
  column whose cells are numbers or missing, and not all integers, is \<^verbatim>\<open>float64\<close>:
  its integers become floats, so that \<^verbatim>\<open>1\<close> is then written \<^verbatim>\<open>1.0\<close>. Any other
  column is \<^verbatim>\<open>object\<close> and keeps its cells.

  The float of an integer is the nearest double, ties to even: the integer itself up
  to \<open>2 ^ 53\<close>.
\<close>

definition int64 :: "int \<Rightarrow> bool" where
  "int64 i = (- (2 ^ 63) \<le> i \<and> i < 2 ^ 63)"

fun bit_length :: "nat \<Rightarrow> nat" where
  "bit_length n = (if n = 0 then 0 else Suc (bit_length (n div 2)))"

definition float_of_int :: "int \<Rightarrow> rat" where
  "float_of_int i =
     (let n = nat \<bar>i\<bar>;
          e = bit_length n - 53;
          q = n div 2 ^ e;
          r = n mod 2 ^ e;
          q' = (if 2 ^ e < 2 * r \<or> (2 * r = 2 ^ e \<and> odd q) then q + 1 else q)
      in (if i < 0 then - 1 else 1) * of_nat (q' * 2 ^ e))"

fun to_float :: "json \<Rightarrow> json" where
  "to_float (JInt i) = JFloat (float_of_int i)"
| "to_float v = v"

fun number :: "json \<Rightarrow> bool" where
  "number (JInt i) = int64 i"
| "number (JFloat q) = True"
| "number v = False"

fun whole :: "json \<Rightarrow> bool" where
  "whole (JInt i) = True"
| "whole v = False"

definition float_column :: "row list \<Rightarrow> string \<Rightarrow> bool" where
  "float_column rs c =
     (list_all (\<lambda>r. number (cell r c) \<or> cell r c = JNull) rs
      \<and> list_ex (\<lambda>r. number (cell r c)) rs
      \<and> list_ex (\<lambda>r. \<not> whole (cell r c)) rs)"

definition retype_row :: "(string \<Rightarrow> bool) \<Rightarrow> row \<Rightarrow> row" where
  "retype_row float r =
     map (\<lambda>kv. (fst kv, if float (fst kv) then to_float (snd kv) else snd kv)) r"

definition retype :: "frame \<Rightarrow> frame" where
  "retype df = df\<lparr>body := map (retype_row (float_column (body df))) (body df)\<rparr>"

subsection \<open>Frames\<close>

text \<open>\<^verbatim>\<open>pd.DataFrame(rows)\<close>: the columns are the keys of the rows, in order of appearance.\<close>

definition add_keys :: "row \<Rightarrow> string list \<Rightarrow> string list" where
  "add_keys r cs = cs @ filter (\<lambda>k. k \<notin> set cs) (remdups (map fst r))"

definition DataFrame :: "row list \<Rightarrow> frame" where
  "DataFrame rs = retype \<lparr>columns = fold add_keys rs [], body = rs\<rparr>"

text \<open>\<^verbatim>\<open>df.empty\<close>: no column or no row.\<close>

definition empty_frame :: "frame \<Rightarrow> bool" where
  "empty_frame df = (columns df = [] \<or> body df = [])"

text \<open>\<^verbatim>\<open>df[df[c].notna()]\<close>: selecting a column that is not there raises.\<close>

definition notna_rows :: "frame \<Rightarrow> string \<Rightarrow> error + frame" where
  "notna_rows df c =
     (if c \<in> set (columns df)
      then Inr (df\<lparr>body := filter (\<lambda>r. cell r c \<noteq> JNull) (body df)\<rparr>)
      else Inl KeyError)"

text \<open>
  \<^verbatim>\<open>pd.concat([a, b], ignore_index=True)\<close>: the rows of \<open>a\<close>, then the rows of
  \<open>b\<close>, under the union of the columns, each column in the common dtype of its two
  parts.
\<close>

definition concat_frames :: "frame \<Rightarrow> frame \<Rightarrow> frame" where
  "concat_frames a b =
     retype \<lparr>columns = columns a @ filter (\<lambda>c. c \<notin> set (columns a)) (columns b),
             body = body a @ body b\<rparr>"

datatype artifact = JsonFile json | CsvFile frame

type_synonym store = "string \<Rightarrow> artifact option"

definition json_load :: "store \<Rightarrow> string \<Rightarrow> error + json" where
  "json_load fs path =
     (case fs path of
        None \<Rightarrow> Inl FileNotFoundError
      | Some (JsonFile payload) \<Rightarrow> Inr payload
      | Some (CsvFile df) \<Rightarrow> Inl JSONDecodeError)"

text \<open>
  \<^verbatim>\<open>pd.read_csv(path)\<close>: a file written from a frame without columns has no header
  line, and reading it raises \<^verbatim>\<open>EmptyDataError\<close>. The dtype of each column is
  inferred from the cells of the file.
\<close>

definition read_csv :: "store \<Rightarrow> string \<Rightarrow> error + frame" where
  "read_csv fs path =
     (case fs path of
        None \<Rightarrow> Inl FileNotFoundError
      | Some (JsonFile payload) \<Rightarrow> Inl ParserError
      | Some (CsvFile df) \<Rightarrow> if columns df = [] then Inl EmptyDataError else Inr (retype df))"

definition to_csv :: "store \<Rightarrow> string \<Rightarrow> frame \<Rightarrow> store" where
  "to_csv fs path df = fs(path \<mapsto> CsvFile df)"

section \<open>The tasks\<close>

definition DATA_DIR :: string where
  "DATA_DIR = ''/opt/airflow/data''"

definition raw_path_of :: "string \<Rightarrow> string" where
  "raw_path_of execution_date =
     DATA_DIR @ ''/raw/mbta_predictions_'' @ execution_date @ ''.json''"

definition clean_path_of :: "string \<Rightarrow> string" where
  "clean_path_of execution_date =
     DATA_DIR @ ''/clean/mbta_delays_'' @ execution_date @ ''.csv''"

definition warehouse_path :: string where
  "warehouse_path = DATA_DIR @ ''/mbta_delay_warehouse.csv''"

text \<open>Lines 112 to 176 of \<^verbatim>\<open>transform_mbta_data\<close>: from the payload to the frame.\<close>

definition clean_frame :: "json \<Rightarrow> string \<Rightarrow> error + frame" where
  "clean_frame payload execution_date =
     ebind (py_get payload ''data'' (JArr [])) (\<lambda>data.
     ebind (py_get payload ''included'' (JArr [])) (\<lambda>included.
     ebind (build_lookups included) (\<lambda>tables.
     ebind (py_iter data) (\<lambda>preds.
     ebind (build_rows (fst tables) (snd tables) execution_date preds) (\<lambda>rs.
     let df = DataFrame rs in
     if \<not> empty_frame df then notna_rows df ''delay_seconds'' else Inr df)))))"

definition transform_mbta_data :: "store \<Rightarrow> string \<Rightarrow> string \<Rightarrow> error + string \<times> store" where
  "transform_mbta_data fs raw_path execution_date =
     ebind (json_load fs raw_path) (\<lambda>payload.
     ebind (clean_frame payload execution_date) (\<lambda>df.
     let clean_path = clean_path_of execution_date in
     Inr (clean_path, to_csv fs clean_path df)))"

definition load_mbta_to_warehouse :: "store \<Rightarrow> string \<Rightarrow> error + int \<times> store" where
  "load_mbta_to_warehouse fs clean_path =
     ebind (read_csv fs clean_path) (\<lambda>df_clean.
     let loaded_rows = int (length (body df_clean)) in
     if fs warehouse_path \<noteq> None then
       ebind (read_csv fs warehouse_path) (\<lambda>df_existing.
       Inr (loaded_rows, to_csv fs warehouse_path (concat_frames df_existing df_clean)))
     else Inr (loaded_rows, to_csv fs warehouse_path df_clean))"

text \<open>
  \<^verbatim>\<open>str(n)\<close> for an integer, as the f-string of the quality check formats
  \<^verbatim>\<open>loaded_rows\<close>.
\<close>

definition digit_char :: "nat \<Rightarrow> char" where
  "digit_char d = ''0123456789'' ! d"

fun str_nat :: "nat \<Rightarrow> string" where
  "str_nat n = (if n < 10 then [digit_char n] else str_nat (n div 10) @ [digit_char (n mod 10)])"

text \<open>
  The conversion of an integer to a decimal string is limited: when the numeral has more
  digits than \<^verbatim>\<open>sys.get_int_max_str_digits()\<close>, 4300 unless configured otherwise, the
  conversion raises \<^verbatim>\<open>ValueError\<close>. The sign does not count as a digit.
\<close>

definition int_max_str_digits :: nat where
  "int_max_str_digits = 4300"

definition str_int :: "int \<Rightarrow> error + string" where
  "str_int i =
     (let digits = str_nat (nat \<bar>i\<bar>) in
      if int_max_str_digits < length digits then Inl ValueError
      else Inr (if i < 0 then CHR ''-'' # digits else digits))"

text \<open>
  \<^verbatim>\<open>mbta_data_quality_check\<close> has no \<^verbatim>\<open>return\<close> and no \<^verbatim>\<open>raise\<close> of its own: its
  result is \<^verbatim>\<open>None\<close>, and what it does is print one line, which is the value of the
  model. The f-string of the second branch formats \<^verbatim>\<open>loaded_rows\<close>, which is where the
  function can raise.
\<close>

definition mbta_data_quality_check :: "int \<Rightarrow> error + string" where
  "mbta_data_quality_check loaded_rows =
     (if loaded_rows \<le> 0 then
        Inr (''Data quality check: no delayed trips were loaded for this run. '' @
             ''This may simply mean there were no delays at this time.'')
      else
        ebind (str_int loaded_rows) (\<lambda>digits.
        Inr (''Data quality check passed. Delayed trips loaded: '' @ digits)))"

subsection \<open>The two tasks that call the MBTA API\<close>

text \<open>
  What \<^verbatim>\<open>requests.get\<close> does is an input of the model: it raises, or it returns a
  response with a status code and a body that \<^verbatim>\<open>resp.json()\<close> decodes or not.
  Both tasks turn a failed call and a status other than 200 into
  \<^verbatim>\<open>AirflowFailException\<close>; the other exceptions of a task are raised as they are.
\<close>

datatype http = RequestFailed | Response nat "json option"

datatype exn = AirflowFailException | Raised error


definition extract_mbta_predictions :: "http \<Rightarrow> store \<Rightarrow> string \<Rightarrow> exn + string \<times> store" where
  "extract_mbta_predictions reply fs execution_date =
     (case reply of
        RequestFailed \<Rightarrow> Inl AirflowFailException
      | Response status_code content \<Rightarrow>
          if status_code \<noteq> 200 then Inl AirflowFailException
          else (case content of
                  None \<Rightarrow> Inl (Raised JSONDecodeError)
                | Some payload \<Rightarrow>
                    let raw_path = raw_path_of execution_date in
                    Inr (raw_path, fs(raw_path \<mapsto> JsonFile payload))))"

section \<open>The DAG\<close>




definition retry_delay_seconds :: nat where
  "retry_delay_seconds = 5 * 60"










section \<open>Notions used to state the properties\<close>

text \<open>The number a string of decimal digits denotes.\<close>

definition digit_value :: "char \<Rightarrow> nat" where
  "digit_value c = of_char c - 48"

definition decimal_value :: "string \<Rightarrow> nat" where
  "decimal_value ds = foldl (\<lambda>acc c. 10 * acc + digit_value c) 0 ds"



text \<open>
  A cell after pandas has inferred the dtype of its column: the cell itself, or the float
  of the integer it was. A row after that: the same keys, each cell retyped.
\<close>

definition retyped :: "json \<Rightarrow> json \<Rightarrow> bool" where
  "retyped v w = (w = v \<or> w = to_float v)"

definition row_retyped :: "row \<Rightarrow> row \<Rightarrow> bool" where
  "row_retyped r r' =
     list_all2 (\<lambda>kv kv'. fst kv' = fst kv \<and> retyped (snd kv) (snd kv')) r r'"

subsection \<open>Example payloads\<close>

text \<open>
  Three predictions: one delayed by 120 seconds on route CR-Fitchburg and a trip bound
  for Boston, one without a delay, one with a delay of 0 and no relationships. The
  included list holds the route, the trip and a stop.
\<close>

definition scenario_included :: "json list" where
  "scenario_included =
     [JObj [(''type'', JStr ''route''), (''id'', JStr ''CR-Fitchburg''),
            (''attributes'', JObj [(''long_name'', JStr ''Fitchburg Line''),
                                   (''short_name'', JStr '''')])],
      JObj [(''type'', JStr ''stop''), (''id'', JStr ''place-north'')],
      JObj [(''type'', JStr ''trip''), (''id'', JStr ''T1''),
            (''attributes'', JObj [(''headsign'', JStr ''Boston''),
                                   (''direction_id'', JInt 1)])]]"

definition scenario_data :: "json list" where
  "scenario_data =
     [JObj [(''id'', JStr ''p1''), (''type'', JStr ''prediction''),
            (''attributes'', JObj [(''delay'', JInt 120), (''status'', JStr ''Late''),
                                   (''departure_time'', JStr ''2025-01-01T06:10:00'')]),
            (''relationships'',
               JObj [(''route'', JObj [(''data'', JObj [(''id'', JStr ''CR-Fitchburg''),
                                                        (''type'', JStr ''route'')])]),
                     (''trip'', JObj [(''data'', JObj [(''id'', JStr ''T1''),
                                                       (''type'', JStr ''trip'')])])])],
      JObj [(''id'', JStr ''p2''), (''type'', JStr ''prediction''),
            (''attributes'', JObj [(''delay'', JNull)])],
      JObj [(''id'', JStr ''p3''), (''type'', JStr ''prediction''),
            (''attributes'', JObj [(''delay'', JInt 0)])]]"

definition scenario :: json where
  "scenario = JObj [(''data'', JArr scenario_data), (''included'', JArr scenario_included)]"





subsection \<open>Example runs of the DAG\<close>







text \<open>
  The transformer followed by the loader on the clean path it returned, as the DAG chains
  them, and a raw payload with no prediction entity: \<^verbatim>\<open>{"data": [], "included": []}\<close>.
\<close>

definition transform_then_load :: "store \<Rightarrow> string \<Rightarrow> string \<Rightarrow> error + int \<times> store" where
  "transform_then_load fs raw_path execution_date =
     ebind (transform_mbta_data fs raw_path execution_date) (\<lambda>r.
     load_mbta_to_warehouse (snd r) (fst r))"

definition no_predictions :: json where
  "no_predictions = JObj [(''data'', JArr []), (''included'', JArr [])]"

definition no_predictions_store :: store where
  "no_predictions_store = [raw_path_of ''2025-01-01'' \<mapsto> JsonFile no_predictions]"


section \<open>Properties\<close>

subsection \<open>Sequencing\<close>

lemma ebind_Inl [simp]: "ebind (Inl e) f = Inl e"
  by (simp add: ebind_def)

lemma ebind_Inr [simp]: "ebind (Inr v) f = f v"
  by (simp add: ebind_def)


subsection \<open>The quality check\<close>

lemma digit_value_digit_char: "d < 10 \<Longrightarrow> digit_value (digit_char d) = d"
proof -
  assume "d < 10"
  then consider "d = 0" | "d = 1" | "d = 2" | "d = 3" | "d = 4" | "d = 5" | "d = 6"
    | "d = 7" | "d = 8" | "d = 9"
    by atomize_elim arith
  then show ?thesis
    by cases (simp_all add: digit_value_def digit_char_def)
qed

lemma decimal_value_snoc: "decimal_value (ds @ [c]) = 10 * decimal_value ds + digit_value c"
  by (simp add: decimal_value_def)

lemma decimal_value_str_nat: "decimal_value (str_nat n) = n"
proof (induction n rule: str_nat.induct)
  case (1 n)
  show ?case
  proof (cases "n < 10")
    case True
    then show ?thesis
      by (simp add: decimal_value_def digit_value_digit_char)
  next
    case False
    then have "decimal_value (str_nat (n div 10)) = n div 10"
      using "1.IH" by simp
    moreover have "str_nat n = str_nat (n div 10) @ [digit_char (n mod 10)]"
      using False by simp
    ultimately show ?thesis
      by (simp add: decimal_value_snoc digit_value_digit_char del: str_nat.simps)
  qed
qed

declare str_nat.simps [simp del]

lemma str_nat_nonempty: "str_nat n \<noteq> []"
  by (subst str_nat.simps) simp

lemma length_str_nat: "length (str_nat n) \<le> Suc k \<longleftrightarrow> n < 10 ^ Suc k"
proof (induction n arbitrary: k rule: str_nat.induct)
  case (1 n)
  show ?case
  proof (cases "n < 10")
    case True
    have "(10::nat) \<le> 10 ^ Suc k" by simp
    with True have "n < 10 ^ Suc k" by (rule less_le_trans)
    moreover have "str_nat n = [digit_char n]" using True by (subst str_nat.simps) simp
    ultimately show ?thesis by simp
  next
    case False
    then have s: "str_nat n = str_nat (n div 10) @ [digit_char (n mod 10)]"
      by (subst str_nat.simps) simp
    show ?thesis
    proof (cases k)
      case 0
      then show ?thesis
        using False str_nat_nonempty [of "n div 10"] by (cases "str_nat (n div 10)") (simp_all add: s)
    next
      case (Suc j)
      have "length (str_nat (n div 10)) \<le> Suc j \<longleftrightarrow> n div 10 < 10 ^ Suc j"
        using "1.IH" [OF False] .
      moreover have "n div 10 < 10 ^ Suc j \<longleftrightarrow> n < 10 ^ Suc (Suc j)"
        by (simp add: div_less_iff_less_mult mult.commute)
      ultimately show ?thesis
        by (simp add: s Suc)
    qed
  qed
qed

lemma str_int_limit:
  "str_int i = (if \<bar>i\<bar> < 10 ^ int_max_str_digits
                then Inr (if i < 0 then CHR ''-'' # str_nat (nat \<bar>i\<bar>) else str_nat (nat \<bar>i\<bar>))
                else Inl ValueError)"
proof -
  have "int_max_str_digits = Suc 4299"
    by (simp add: int_max_str_digits_def)
  then obtain k where k: "int_max_str_digits = Suc k" ..
  have "length (str_nat (nat \<bar>i\<bar>)) \<le> Suc k \<longleftrightarrow> nat \<bar>i\<bar> < 10 ^ Suc k"
    by (rule length_str_nat)
  moreover have "nat \<bar>i\<bar> < 10 ^ Suc k \<longleftrightarrow> \<bar>i\<bar> < 10 ^ Suc k"
    by (simp add: nat_less_iff del: power_Suc)
  ultimately have le: "\<bar>i\<bar> < 10 ^ Suc k \<longleftrightarrow> length (str_nat (nat \<bar>i\<bar>)) \<le> Suc k"
    by blast
  show ?thesis
    unfolding str_int_def Let_def k le by (auto simp del: power_Suc)
qed

lemma limit_positive: "(0::int) < 10 ^ int_max_str_digits"
  by simp

lemma small_count: "(120::int) < 10 ^ int_max_str_digits"
proof -
  have "(10::int) ^ 3 \<le> 10 ^ int_max_str_digits"
    by (rule power_increasing) (simp_all add: int_max_str_digits_def)
  then show ?thesis by simp
qed

text \<open>
  C5, as the code has it. For \<open>loaded_rows \<le> 0\<close> the quality check returns normally and
  prints the fixed notice that no delayed trips were loaded. For a positive \<open>loaded_rows\<close>
  below \<open>10 ^ 4300\<close> it returns normally and prints the success notice followed by the
  decimal numeral of the count. For \<open>loaded_rows\<close> from \<open>10 ^ 4300\<close> on, the f-string
  cannot format the count and the check raises \<^verbatim>\<open>ValueError\<close>. The printed line is the
  only result.
\<close>

theorem quality_check_never_fails:
  "(loaded_rows \<le> 0 \<longrightarrow>
      mbta_data_quality_check loaded_rows =
        Inr ''Data quality check: no delayed trips were loaded for this run. This may simply mean there were no delays at this time.'')
   \<and> (0 < loaded_rows \<and> loaded_rows < 10 ^ int_max_str_digits \<longrightarrow>
        mbta_data_quality_check loaded_rows =
          Inr (''Data quality check passed. Delayed trips loaded: '' @ str_nat (nat loaded_rows))
        \<and> int (decimal_value (str_nat (nat loaded_rows))) = loaded_rows)
   \<and> (10 ^ int_max_str_digits \<le> loaded_rows \<longrightarrow>
        mbta_data_quality_check loaded_rows = Inl ValueError)"
proof -
  have pos: "(0::int) < 10 ^ int_max_str_digits" by simp
  have 1: "mbta_data_quality_check loaded_rows =
        Inr ''Data quality check: no delayed trips were loaded for this run. This may simply mean there were no delays at this time.''"
    if "loaded_rows \<le> 0"
    using that by (simp add: mbta_data_quality_check_def)
  have 2: "mbta_data_quality_check loaded_rows =
          Inr (''Data quality check passed. Delayed trips loaded: '' @ str_nat (nat loaded_rows))
        \<and> int (decimal_value (str_nat (nat loaded_rows))) = loaded_rows"
    if "0 < loaded_rows \<and> loaded_rows < 10 ^ int_max_str_digits"
    using that by (simp add: mbta_data_quality_check_def str_int_limit decimal_value_str_nat)
  have 3: "mbta_data_quality_check loaded_rows = Inl ValueError"
    if "10 ^ int_max_str_digits \<le> loaded_rows"
  proof -
    from that pos have "0 < loaded_rows" by linarith
    moreover from that have "\<not> \<bar>loaded_rows\<bar> < 10 ^ int_max_str_digits" by linarith
    ultimately show ?thesis by (simp add: mbta_data_quality_check_def str_int_limit)
  qed
  show ?thesis using 1 2 3 by blast
qed

theorem quality_check_never_fails_witness:
  "mbta_data_quality_check 0 =
     Inr ''Data quality check: no delayed trips were loaded for this run. This may simply mean there were no delays at this time.''
   \<and> mbta_data_quality_check (- 4) = mbta_data_quality_check 0
   \<and> mbta_data_quality_check 120 = Inr ''Data quality check passed. Delayed trips loaded: 120''
   \<and> mbta_data_quality_check (10 ^ int_max_str_digits + 7) = Inl ValueError"
proof -
  have "(10::int) ^ int_max_str_digits \<le> 10 ^ int_max_str_digits + 7" by linarith
  then show ?thesis
    using quality_check_never_fails [of 0] quality_check_never_fails [of "- 4"]
      quality_check_never_fails [of 120] small_count
      quality_check_never_fails [of "10 ^ int_max_str_digits + 7"]
    by (simp add: digit_char_def str_nat.simps)
qed

text \<open>
  The claim as stated fails: given the integer \<open>10 ^ 4300\<close>, which has 4301 digits, the
  quality check raises.
\<close>

theorem quality_check_counterexample:
  "mbta_data_quality_check (10 ^ int_max_str_digits) = Inl ValueError"
proof -
  have "(0::int) < 10 ^ int_max_str_digits" by simp
  then have "\<not> (10::int) ^ int_max_str_digits \<le> 0" by linarith
  then show ?thesis by (simp add: mbta_data_quality_check_def str_int_limit)
qed

subsection \<open>The dtype of a column\<close>



lemma to_float_null [simp]: "to_float v = JNull \<longleftrightarrow> v = JNull"
  by (cases v) simp_all

lemma to_float_idem [simp]: "to_float (to_float v) = to_float v"
  by (cases v) simp_all

lemma retyped_refl [simp]: "retyped v v"
  by (simp add: retyped_def)

lemma retyped_to_float [simp]: "retyped v (to_float v)"
  by (simp add: retyped_def)


lemma retyped_null [simp]: "retyped JNull w \<longleftrightarrow> w = JNull"
  by (auto simp: retyped_def)

lemma retyped_null_iff: "retyped v w \<Longrightarrow> w = JNull \<longleftrightarrow> v = JNull"
  by (auto simp: retyped_def)

lemma retyped_str: "retyped (JStr s) w \<longleftrightarrow> w = JStr s"
  by (auto simp: retyped_def)

lemma row_retyped_refl [simp]: "row_retyped r r"
  by (simp add: row_retyped_def list_all2_refl)


lemma row_retyped_retype_row [simp]: "row_retyped r (retype_row float r)"
  by (simp add: row_retyped_def retype_row_def list_all2_map2 list_all2_refl)

lemma row_retyped_keys: "row_retyped r r' \<Longrightarrow> map fst r' = map fst r"
  unfolding row_retyped_def by (induction rule: list_all2_induct) simp_all

lemma row_retyped_cell: "row_retyped r r' \<Longrightarrow> retyped (cell r c) (cell r' c)"
  unfolding row_retyped_def
  by (induction rule: list_all2_induct) (auto simp: cell_def dict_get_def)

lemma rows_retyped_refl [simp]: "list_all2 row_retyped rs rs"
  by (simp add: list_all2_refl)


lemma columns_retype [simp]: "columns (retype df) = columns df"
  by (simp add: retype_def)

lemma length_body_retype [simp]: "length (body (retype df)) = length (body df)"
  by (simp add: retype_def)

lemma body_retype_Nil [simp]: "body (retype df) = [] \<longleftrightarrow> body df = []"
  by (simp add: retype_def)


lemma cell_retype_row:
  "cell (retype_row float r) c = (if float c then to_float (cell r c) else cell r c)"
  by (induction r) (auto simp: retype_row_def cell_def dict_get_def)

subsection \<open>Evaluation of the examples\<close>

lemmas eval_defs = clean_frame_def build_lookups_def add_included_def route_name_of_def
  lookup_set_def lookup_get_def make_row_def rel_id_def or_empty_def dict_get_def
  DataFrame_def add_keys_def empty_frame_def notna_rows_def cell_def Let_def
  float_convertible_def retype_def retype_row_def float_column_def int64_def



subsection \<open>The lookup tables\<close>

lemma fold_included_append:
  "fold_included (xs @ ys) t = ebind (fold_included xs t) (fold_included ys)"
proof (induction xs arbitrary: t)
  case Nil
  show ?case by simp
next
  case (Cons x xs)
  show ?case
  proof (cases "add_included t x")
    case (Inl e)
    then show ?thesis by simp
  next
    case (Inr t')
    then show ?thesis using Cons.IH [of t'] by simp
  qed
qed

lemma add_included_other:
  assumes "dict_get kvs ''type'' JNull \<noteq> JStr ''route''"
    and "dict_get kvs ''type'' JNull \<noteq> JStr ''trip''"
  shows "add_included t (JObj kvs) = Inr t"
  using assms by (cases t) (simp add: add_included_def Let_def)

text \<open>
  C10. An included entity whose type is neither \<^verbatim>\<open>"route"\<close> nor \<^verbatim>\<open>"trip"\<close>
  changes neither lookup table, so the tables, and with them the clean frame of the
  payload, are the same as without it.
\<close>

theorem other_included_ignored:
  assumes "dict_get kvs ''type'' JNull \<noteq> JStr ''route''"
    and "dict_get kvs ''type'' JNull \<noteq> JStr ''trip''"
  shows "build_lookups (JArr (xs @ JObj kvs # ys)) = build_lookups (JArr (xs @ ys))
    \<and> clean_frame (JObj [(''data'', data), (''included'', JArr (xs @ JObj kvs # ys))]) d
      = clean_frame (JObj [(''data'', data), (''included'', JArr (xs @ ys))]) d"
proof -
  have step: "fold_included (JObj kvs # ys) = fold_included ys"
    using add_included_other [OF assms] by (intro ext) simp
  have "fold_included (xs @ JObj kvs # ys) t = fold_included (xs @ ys) t" for t
    by (simp only: fold_included_append step)
  then have eq: "build_lookups (JArr (xs @ JObj kvs # ys)) = build_lookups (JArr (xs @ ys))"
    by (simp add: build_lookups_def)
  then show ?thesis
    by (simp add: clean_frame_def dict_get_def)
qed

theorem other_included_ignored_witness:
  "build_lookups (JArr scenario_included)
     = build_lookups (JArr [scenario_included ! 0, scenario_included ! 2])
   \<and> clean_frame scenario ''2025-01-01''
     = clean_frame (JObj [(''data'', JArr scenario_data),
                          (''included'', JArr [scenario_included ! 0, scenario_included ! 2])])
         ''2025-01-01''"
  using other_included_ignored [of "[(''type'', JStr ''stop''), (''id'', JStr ''place-north'')]"
      "[scenario_included ! 0]" "[scenario_included ! 2]" "JArr scenario_data" "''2025-01-01''"]
  by (simp add: scenario_included_def scenario_def dict_get_def)








subsection \<open>Retries\<close>














subsection \<open>The warehouse\<close>











text \<open>
  C4.  The claim that a payload with an empty retained row set, a payload with zero
  prediction entities included, is transformed and then loaded with a row count of 0 does
  not hold of the code.  On the payload \<^verbatim>\<open>{"data": [], "included": []}\<close> the transformer
  succeeds and returns the clean path, but the frame it writes there has no column
  (\<^verbatim>\<open>pd.DataFrame([])\<close> has none, and the \<^verbatim>\<open>if not df.empty\<close> guard only skips the filter), so
  the file has no header line and the loader's \<^verbatim>\<open>pd.read_csv(clean_path)\<close> raises
  \<^verbatim>\<open>EmptyDataError\<close> although no warehouse file is involved.
\<close>

theorem no_predictions_loader_fails:
  "map_sum id fst
     (transform_mbta_data no_predictions_store (raw_path_of ''2025-01-01'') ''2025-01-01'')
     = Inr (clean_path_of ''2025-01-01'')
   \<and> map_sum id (\<lambda>r. snd r (fst r))
     (transform_mbta_data no_predictions_store (raw_path_of ''2025-01-01'') ''2025-01-01'')
     = Inr (Some (CsvFile \<lparr>columns = [], body = []\<rparr>))
   \<and> transform_then_load no_predictions_store (raw_path_of ''2025-01-01'') ''2025-01-01''
     = Inl EmptyDataError"
  by (simp add: transform_then_load_def transform_mbta_data_def load_mbta_to_warehouse_def
      json_load_def no_predictions_store_def no_predictions_def eval_defs build_rows.simps
      read_csv_def to_csv_def)

end
